theory Spec2Isabelle
  imports Main "HOL-Library.Log_Nat" "HOL-Library.Sublist"
begin

section \<open>Python values\<close>

text \<open>
  The forecast handed to \<^verbatim>\<open>WeatherService.analyze_forecast\<close> is whatever
  \<^verbatim>\<open>response.json()\<close> decoded: \<^verbatim>\<open>None\<close>, booleans, unbounded integers, binary64
  floats, strings, lists and dictionaries with string keys. A dictionary is an association
  list in insertion order; its keys are taken to be distinct, as the keys of a Python
  dictionary are. Strings are HOL strings: one \<^typ>\<open>char\<close> per ASCII character, and a
  character outside ASCII is the sequence of its UTF-8 bytes.

  A float is a rational (every finite binary64 value is one), negative zero, an infinity or
  a NaN; \<open>Fin 0\<close> is positive zero.
\<close>

datatype pyfloat = Fin rat | NegZero | PInf | NInf | NaN

datatype pyval =
    PNone
  | PBool bool
  | PInt int
  | PFloat pyfloat
  | PStr string
  | PList "pyval list"
  | PDict "(string \<times> pyval) list"

text \<open>The exceptions the analysed code can raise.\<close>

datatype py_error = KeyError | TypeError | AttributeError | OverflowError

text \<open>Sequencing of two steps, the second of which runs only if the first did not raise.\<close>

definition bind :: "py_error + 'a \<Rightarrow> ('a \<Rightarrow> py_error + 'b) \<Rightarrow> py_error + 'b" where
  "bind m f = (case m of Inl e \<Rightarrow> Inl e | Inr v \<Rightarrow> f v)"

subsection \<open>Binary64 arithmetic\<close>

definition pow2 :: "int \<Rightarrow> rat" where
  "pow2 k = (if 0 \<le> k then 2 ^ nat k else 1 / 2 ^ nat (- k))"

text \<open>
  \<open>ilog2 a\<close> is \<open>\<lfloor>log\<^sub>2 a\<rfloor>\<close> for a positive rational \<open>a\<close>: one less than the number
  of bits of \<open>\<lfloor>a\<rfloor>\<close> from 1 on, and below 1 the negated number of bits of \<open>\<lceil>1/a\<rceil> - 1\<close>.
\<close>

definition ilog2 :: "rat \<Rightarrow> int" where
  "ilog2 a =
     (if 1 \<le> a then int (floorlog 2 (nat \<lfloor>a\<rfloor>)) - 1
      else - int (floorlog 2 (nat (\<lceil>1 / a\<rceil> - 1))))"

definition round_half_even :: "rat \<Rightarrow> int" where
  "round_half_even x =
     (let f = \<lfloor>x\<rfloor>; d = x - of_int f
      in if d < 1 / 2 then f
         else if 1 / 2 < d then f + 1
         else if even f then f else f + 1)"

text \<open>
  Rounding of an exact result to binary64, to nearest with ties to even: 53 significant
  bits, exponents down to \<open>-1022\<close> (below that the spacing stays \<open>2\<^sup>-\<^sup>1\<^sup>0\<^sup>7\<^sup>4\<close>), and
  an infinity once the rounded magnitude reaches \<open>2\<^sup>1\<^sup>0\<^sup>2\<^sup>4\<close>.
\<close>

definition round_binary64 :: "rat \<Rightarrow> pyfloat" where
  "round_binary64 x =
     (if x = 0 then Fin 0
      else
        let a = \<bar>x\<bar>;
            e = max (ilog2 a) (- 1022);
            ulp = pow2 (e - 52);
            r = of_int (round_half_even (a / ulp)) * ulp
        in if pow2 1024 \<le> r then (if 0 < x then PInf else NInf)
           else if r = 0 then (if 0 < x then Fin 0 else NegZero)
           else Fin (if 0 < x then r else - r))"

fun float_is_zero :: "pyfloat \<Rightarrow> bool" where
  "float_is_zero (Fin q) = (q = 0)"
| "float_is_zero NegZero = True"
| "float_is_zero _ = False"

fun float_is_inf :: "pyfloat \<Rightarrow> bool" where
  "float_is_inf PInf = True"
| "float_is_inf NInf = True"
| "float_is_inf _ = False"

fun float_negative :: "pyfloat \<Rightarrow> bool" where
  "float_negative (Fin q) = (q < 0)"
| "float_negative NegZero = True"
| "float_negative NInf = True"
| "float_negative _ = False"

fun float_val :: "pyfloat \<Rightarrow> rat" where
  "float_val (Fin q) = q"
| "float_val _ = 0"

text \<open>The product of two floats.\<close>

definition float_mul :: "pyfloat \<Rightarrow> pyfloat \<Rightarrow> pyfloat" where
  "float_mul x y =
     (if x = NaN \<or> y = NaN then NaN
      else if float_is_inf x \<or> float_is_inf y then
        (if float_is_zero x \<or> float_is_zero y then NaN
         else if float_negative x \<noteq> float_negative y then NInf else PInf)
      else if float_is_zero x \<or> float_is_zero y then
        (if float_negative x \<noteq> float_negative y then NegZero else Fin 0)
      else round_binary64 (float_val x * float_val y))"

text \<open>
  The conversion of an integer operand to a float, which raises \<^verbatim>\<open>OverflowError\<close> on an
  integer too large for a float.
\<close>

definition int_to_float :: "int \<Rightarrow> py_error + pyfloat" where
  "int_to_float i =
     (let f = round_binary64 (of_int i)
      in if float_is_inf f then Inl OverflowError else Inr f)"

text \<open>The float literal \<^verbatim>\<open>3.6\<close>: the binary64 value nearest to \<open>36/10\<close>.\<close>

definition float_3_6 :: pyfloat where
  "float_3_6 = round_binary64 (36 / 10)"

subsection \<open>Operations on values\<close>

text \<open>Truth value of an object (\<^verbatim>\<open>not forecast\<close>).\<close>

fun py_truthy :: "pyval \<Rightarrow> bool" where
  "py_truthy PNone = False"
| "py_truthy (PBool b) = b"
| "py_truthy (PInt i) = (i \<noteq> 0)"
| "py_truthy (PFloat f) = (\<not> float_is_zero f)"
| "py_truthy (PStr s) = (s \<noteq> [])"
| "py_truthy (PList xs) = (xs \<noteq> [])"
| "py_truthy (PDict kvs) = (kvs \<noteq> [])"

text \<open>\<^verbatim>\<open>sub in s\<close> for two strings: \<open>sub\<close> occurs in \<open>s\<close> as a contiguous substring.\<close>

fun str_contains :: "string \<Rightarrow> string \<Rightarrow> bool" where
  "str_contains [] sub = (sub = [])"
| "str_contains (c # cs) sub = (prefix sub (c # cs) \<or> str_contains cs sub)"

text \<open>
  \<^verbatim>\<open>key in obj\<close> for a string \<open>key\<close>: a key of a dictionary, an element of a list, a
  substring of a string; any other object is not a container.
\<close>

fun py_contains :: "pyval \<Rightarrow> string \<Rightarrow> py_error + bool" where
  "py_contains (PDict kvs) key = Inr (key \<in> set (map fst kvs))"
| "py_contains (PList xs) key = Inr (PStr key \<in> set xs)"
| "py_contains (PStr s) key = Inr (str_contains s key)"
| "py_contains _ key = Inl TypeError"

text \<open>
  \<^verbatim>\<open>obj[key]\<close> for a string \<open>key\<close>: the value under the key in a dictionary, \<^verbatim>\<open>KeyError\<close>
  if there is none; lists and strings take no string index, other objects no index at all.
\<close>

fun py_getitem :: "pyval \<Rightarrow> string \<Rightarrow> py_error + pyval" where
  "py_getitem (PDict kvs) key =
     (case map_of kvs key of None \<Rightarrow> Inl KeyError | Some v \<Rightarrow> Inr v)"
| "py_getitem _ key = Inl TypeError"

text \<open>\<^verbatim>\<open>obj.get(key, [])\<close>; only a dictionary has the method.\<close>

fun py_get_or_empty :: "pyval \<Rightarrow> string \<Rightarrow> py_error + pyval" where
  "py_get_or_empty (PDict kvs) key =
     (case map_of kvs key of None \<Rightarrow> Inr (PList []) | Some v \<Rightarrow> Inr v)"
| "py_get_or_empty _ key = Inl AttributeError"

text \<open>
  The elements a \<^verbatim>\<open>for\<close> loop runs over: those of a list, the keys of a dictionary, the
  characters of a string.
\<close>

fun py_iter :: "pyval \<Rightarrow> py_error + pyval list" where
  "py_iter (PList xs) = Inr xs"
| "py_iter (PDict kvs) = Inr (map (\<lambda>kv. PStr (fst kv)) kvs)"
| "py_iter (PStr s) = Inr (map (\<lambda>c. PStr [c]) s)"
| "py_iter _ = Inl TypeError"

text \<open>
  \<^verbatim>\<open>x > t\<close> and \<^verbatim>\<open>x < t\<close> against an integer \<open>t\<close>. Booleans count as 0 and 1, a float is
  compared by its exact value, a NaN is neither above nor below anything, and an object
  that is not a number cannot be ordered against an integer.
\<close>

fun float_gt_int :: "pyfloat \<Rightarrow> int \<Rightarrow> bool" where
  "float_gt_int (Fin q) t = (of_int t < q)"
| "float_gt_int NegZero t = (t < 0)"
| "float_gt_int PInf t = True"
| "float_gt_int NInf t = False"
| "float_gt_int NaN t = False"

fun float_lt_int :: "pyfloat \<Rightarrow> int \<Rightarrow> bool" where
  "float_lt_int (Fin q) t = (q < of_int t)"
| "float_lt_int NegZero t = (0 < t)"
| "float_lt_int PInf t = False"
| "float_lt_int NInf t = True"
| "float_lt_int NaN t = False"

fun py_gt :: "pyval \<Rightarrow> int \<Rightarrow> py_error + bool" where
  "py_gt (PBool b) t = Inr (t < (if b then 1 else 0))"
| "py_gt (PInt i) t = Inr (t < i)"
| "py_gt (PFloat f) t = Inr (float_gt_int f t)"
| "py_gt _ t = Inl TypeError"

fun py_lt :: "pyval \<Rightarrow> int \<Rightarrow> py_error + bool" where
  "py_lt (PBool b) t = Inr ((if b then 1 else 0) < t)"
| "py_lt (PInt i) t = Inr (i < t)"
| "py_lt (PFloat f) t = Inr (float_lt_int f t)"
| "py_lt _ t = Inl TypeError"

text \<open>
  \<^verbatim>\<open>x * 3.6\<close>: an integer or boolean operand is converted to a float first; a sequence
  cannot be multiplied by a float, and the other objects have no product.
\<close>

fun py_mul_3_6 :: "pyval \<Rightarrow> py_error + pyval" where
  "py_mul_3_6 (PBool b) = Inr (PFloat (float_mul (Fin (if b then 1 else 0)) float_3_6))"
| "py_mul_3_6 (PInt i) = bind (int_to_float i) (\<lambda>f. Inr (PFloat (float_mul f float_3_6)))"
| "py_mul_3_6 (PFloat f) = Inr (PFloat (float_mul f float_3_6))"
| "py_mul_3_6 _ = Inl TypeError"

text \<open>
  Case mapping of the ASCII letters; every other character is left as it is.
  \<^verbatim>\<open>str.lower\<close> maps every character.
\<close>

definition ascii_upper :: string where
  "ascii_upper = ''ABCDEFGHIJKLMNOPQRSTUVWXYZ''"

definition ascii_lower :: string where
  "ascii_lower = ''abcdefghijklmnopqrstuvwxyz''"

definition lower_char :: "char \<Rightarrow> char" where
  "lower_char c = (case map_of (zip ascii_upper ascii_lower) c of None \<Rightarrow> c | Some l \<Rightarrow> l)"

definition upper_char :: "char \<Rightarrow> char" where
  "upper_char c = (case map_of (zip ascii_lower ascii_upper) c of None \<Rightarrow> c | Some u \<Rightarrow> u)"

definition str_lower :: "string \<Rightarrow> string" where
  "str_lower s = map lower_char s"

text \<open>
  \<^verbatim>\<open>str.capitalize\<close>. On an ASCII string, one whose characters all have the top bit
  clear, it upper-cases the first character and lower-cases the others. On a string with
  a character outside ASCII the result follows the case mapping of Unicode, which is not
  part of the model: there it is given by \<open>unicode_capitalize\<close>, a parameter.
\<close>

definition is_ascii :: "string \<Rightarrow> bool" where
  "is_ascii s = list_all (\<lambda>c. \<not> digit7 c) s"

fun ascii_capitalize :: "string \<Rightarrow> string" where
  "ascii_capitalize [] = []"
| "ascii_capitalize (c # cs) = upper_char c # map lower_char cs"

definition capitalize :: "(string \<Rightarrow> string) \<Rightarrow> string \<Rightarrow> string" where
  "capitalize unicode_capitalize s =
     (if is_ascii s then ascii_capitalize s else unicode_capitalize s)"

text \<open>\<^verbatim>\<open>obj.lower()\<close>; only a string has the method.\<close>

fun py_lower :: "pyval \<Rightarrow> py_error + string" where
  "py_lower (PStr s) = Inr (str_lower s)"
| "py_lower _ = Inl AttributeError"

section \<open>The weather service\<close>

text \<open>
  The dataclass \<^verbatim>\<open>WeatherCondition\<close>. Its \<open>value\<close> is the object the rule stored: the
  sample of the forecast itself, the product of the wind speed, or the integer 0.
\<close>

record WeatherCondition =
  type :: string
  severity :: string
  description :: string
  "value" :: pyval
  unit :: string

text \<open>
  \<^verbatim>\<open>self.thresholds\<close>, the nested dictionary built by the constructor, as one record with
  a field for each of its leaves.
\<close>

record Thresholds =
  temperature_extreme_high :: int
  temperature_extreme_low :: int
  temperature_warning_high :: int
  temperature_warning_low :: int
  wind_severe :: int
  wind_warning :: int
  heavy_rain_3h :: int
  heavy_rain_6h :: int
  snow_3h :: int
  snow_6h :: int
  severe_conditions :: "string list"

record WeatherService =
  api_key :: string
  location :: string
  thresholds :: Thresholds

definition WeatherService_init :: "string \<Rightarrow> string \<Rightarrow> WeatherService" where
  "WeatherService_init key loc =
     \<lparr>api_key = key, location = loc,
      thresholds =
        \<lparr>temperature_extreme_high = 40, temperature_extreme_low = - 15,
         temperature_warning_high = 35, temperature_warning_low = - 10,
         wind_severe = 75, wind_warning = 50,
         heavy_rain_3h = 50, heavy_rain_6h = 80,
         snow_3h = 20, snow_6h = 40,
         severe_conditions =
           [''thunderstorm'', ''hurricane'', ''tornado'', ''cyclone'', ''typhoon'',
            ''blizzard'']\<rparr>\<rparr>"

text \<open>
  A replacement field of an f-string: a string is inserted as it is; for every other object
  the text Python prints for it is given by \<open>render\<close>, a parameter of the model.
\<close>

definition py_format :: "(pyval \<Rightarrow> string) \<Rightarrow> pyval \<Rightarrow> string" where
  "py_format render v = (case v of PStr s \<Rightarrow> s | _ \<Rightarrow> render v)"

text \<open>The unit of the temperature conditions, a degree sign and \<open>C\<close>.\<close>

definition degrees_celsius :: string where
  "degrees_celsius = [CHR 0xC2, CHR 0xB0, CHR ''C'']"

text \<open>
  \<^verbatim>\<open>any(condition in weather["main"].lower() for condition in severe_conditions)\<close>: the
  generator looks the category up and lower-cases it once per keyword, and stops at the
  first keyword found.
\<close>

fun any_severe :: "string list \<Rightarrow> pyval \<Rightarrow> py_error + bool" where
  "any_severe [] weather = Inr False"
| "any_severe (condition # rest) weather =
     bind (py_getitem weather ''main'') (\<lambda>m.
     bind (py_lower m) (\<lambda>lowered.
       if str_contains lowered condition then Inr True else any_severe rest weather))"

text \<open>The loop over the weather tags of one entry, appending to \<open>dangerous_conditions\<close>.\<close>

fun analyze_weather ::
  "WeatherService \<Rightarrow> (pyval \<Rightarrow> string) \<Rightarrow> pyval list \<Rightarrow> WeatherCondition list
     \<Rightarrow> py_error + WeatherCondition list" where
  "analyze_weather self render [] dangerous_conditions = Inr dangerous_conditions"
| "analyze_weather self render (weather # rest) dangerous_conditions =
     bind (any_severe (severe_conditions (thresholds self)) weather) (\<lambda>hit.
       if hit then
         bind (py_getitem weather ''description'') (\<lambda>d.
           analyze_weather self render rest
             (dangerous_conditions @
                [\<lparr>type = ''weather'', severity = ''severe'',
                  description = ''Severe Weather: '' @ py_format render d,
                  value = PInt 0, unit = []\<rparr>]))
       else analyze_weather self render rest dangerous_conditions)"

text \<open>The body of the loop over the entries, for one entry.\<close>

definition analyze_entry ::
  "WeatherService \<Rightarrow> (pyval \<Rightarrow> string) \<Rightarrow> pyval \<Rightarrow> WeatherCondition list
     \<Rightarrow> py_error + WeatherCondition list" where
  "analyze_entry self render entry dangerous_conditions =
     bind (py_getitem entry ''main'') (\<lambda>main.
     bind (py_getitem main ''temp'') (\<lambda>temp.
     bind (py_gt temp (temperature_extreme_high (thresholds self))) (\<lambda>hot.
     bind (if hot then
             Inr (dangerous_conditions @
                    [\<lparr>type = ''temperature'', severity = ''extreme'',
                      description = ''Extreme Heat'', value = temp,
                      unit = degrees_celsius\<rparr>])
           else
             bind (py_lt temp (temperature_extreme_low (thresholds self))) (\<lambda>cold.
               Inr (if cold then
                      dangerous_conditions @
                        [\<lparr>type = ''temperature'', severity = ''extreme'',
                          description = ''Extreme Cold'', value = temp,
                          unit = degrees_celsius\<rparr>]
                    else dangerous_conditions))) (\<lambda>after_temp.
     bind (py_getitem entry ''wind'') (\<lambda>wind.
     bind (py_getitem wind ''speed'') (\<lambda>speed.
     bind (py_mul_3_6 speed) (\<lambda>wind_speed.
     bind (py_gt wind_speed (wind_severe (thresholds self))) (\<lambda>windy.
     bind (Inr (if windy then
                  after_temp @
                    [\<lparr>type = ''wind'', severity = ''severe'', description = ''High Winds'',
                      value = wind_speed, unit = ''km/h''\<rparr>]
                else after_temp)) (\<lambda>after_wind.
     bind (py_contains entry ''rain'') (\<lambda>has_rain.
     bind (if has_rain then
             bind (py_getitem entry ''rain'') (\<lambda>rain. py_contains rain ''3h'')
           else Inr False) (\<lambda>has_3h.
     bind (if has_3h then
             bind (py_getitem entry ''rain'') (\<lambda>rain.
             bind (py_getitem rain ''3h'') (\<lambda>rain_volume.
             bind (py_gt rain_volume (heavy_rain_3h (thresholds self))) (\<lambda>heavy.
               Inr (if heavy then
                      after_wind @
                        [\<lparr>type = ''precipitation'', severity = ''heavy'',
                          description = ''Heavy Rain'', value = rain_volume,
                          unit = ''mm''\<rparr>]
                    else after_wind))))
           else Inr after_wind) (\<lambda>after_rain.
     bind (py_get_or_empty entry ''weather'') (\<lambda>tags.
     bind (py_iter tags) (\<lambda>weathers.
       analyze_weather self render weathers after_rain))))))))))))))"

fun analyze_entries ::
  "WeatherService \<Rightarrow> (pyval \<Rightarrow> string) \<Rightarrow> pyval list \<Rightarrow> WeatherCondition list
     \<Rightarrow> py_error + WeatherCondition list" where
  "analyze_entries self render [] dangerous_conditions = Inr dangerous_conditions"
| "analyze_entries self render (entry # rest) dangerous_conditions =
     bind (analyze_entry self render entry dangerous_conditions)
       (analyze_entries self render rest)"

text \<open>
  \<^verbatim>\<open>WeatherService.analyze_forecast\<close>. The warning written to the log on an invalid
  forecast is not part of the model.
\<close>

definition analyze_forecast ::
  "WeatherService \<Rightarrow> (pyval \<Rightarrow> string) \<Rightarrow> pyval \<Rightarrow> py_error + WeatherCondition list" where
  "analyze_forecast self render forecast =
     (if \<not> py_truthy forecast then Inr []
      else
        bind (py_contains forecast ''list'') (\<lambda>has_list.
          if \<not> has_list then Inr []
          else
            bind (py_getitem forecast ''list'') (\<lambda>entries.
            bind (py_iter entries) (\<lambda>es.
              analyze_entries self render es []))))"

section \<open>The alert system\<close>

record AlertSystem =
  severity_levels :: "(string \<times> int) list"
  notification_threshold :: string
  pushover_user_key :: string
  pushover_app_token :: string

text \<open>The constructor; \<open>None\<close> is a call that leaves the threshold to its default.\<close>

definition AlertSystem_init :: "string \<Rightarrow> string \<Rightarrow> string option \<Rightarrow> AlertSystem" where
  "AlertSystem_init user_key app_token threshold =
     \<lparr>severity_levels = [(''info'', 0), (''warning'', 1), (''severe'', 2), (''extreme'', 3)],
      notification_threshold = (case threshold of None \<Rightarrow> ''warning'' | Some t \<Rightarrow> t),
      pushover_user_key = user_key,
      pushover_app_token = app_token\<rparr>"

text \<open>\<^verbatim>\<open>self.severity_levels.get(name, 0)\<close>.\<close>

definition get_level :: "AlertSystem \<Rightarrow> string \<Rightarrow> int" where
  "get_level self name = (case map_of (severity_levels self) name of None \<Rightarrow> 0 | Some r \<Rightarrow> r)"

text \<open>\<^verbatim>\<open>AlertSystem.filter_conditions\<close>: the list comprehension, one condition at a time.\<close>

fun filter_conditions :: "AlertSystem \<Rightarrow> WeatherCondition list \<Rightarrow> WeatherCondition list" where
  "filter_conditions self [] = []"
| "filter_conditions self (condition # rest) =
     (if get_level self (notification_threshold self) \<le> get_level self (severity condition)
      then condition # filter_conditions self rest
      else filter_conditions self rest)"

text \<open>
  The pictograms that open the header and the lines, byte for byte as the string literals
  stand in the source file.
\<close>

definition glyph_alert :: string where
  "glyph_alert =
     [CHR 0xC3, CHR 0xA2, CHR 0xC5, CHR 0xA1, CHR 0xC2, CHR 0xA0, CHR 0xC3, CHR 0xAF,
      CHR 0xC2, CHR 0xB8]"

definition glyph_temperature :: string where
  "glyph_temperature =
     [CHR 0xC3, CHR 0xB0, CHR 0xC5, CHR 0xB8, CHR 0xC5, CHR 0x92, CHR 0xC2, CHR 0xA1,
      CHR 0xC3, CHR 0xAF, CHR 0xC2, CHR 0xB8]"

definition glyph_wind :: string where
  "glyph_wind =
     [CHR 0xC3, CHR 0xB0, CHR 0xC5, CHR 0xB8, CHR 0xE2, CHR 0x80, CHR 0x99, CHR 0xC2,
      CHR 0xA8]"

definition glyph_precipitation :: string where
  "glyph_precipitation =
     [CHR 0xC3, CHR 0xB0, CHR 0xC5, CHR 0xB8, CHR 0xC5, CHR 0x92, CHR 0xC2, CHR 0xA7,
      CHR 0xC3, CHR 0xAF, CHR 0xC2, CHR 0xB8]"

definition glyph_other :: string where
  "glyph_other = [CHR 0xC3, CHR 0xA2, CHR 0xC5, CHR 0xA1, CHR 0xC2, CHR 0xA1]"

definition newline :: string where
  "newline = [CHR 0x0A]"

text \<open>\<^verbatim>\<open>sep.join(parts)\<close>.\<close>

fun str_join :: "string \<Rightarrow> string list \<Rightarrow> string" where
  "str_join sep [] = []"
| "str_join sep [p] = p"
| "str_join sep (p # q # ps) = p @ sep @ str_join sep (q # ps)"

text \<open>
  The loop of \<^verbatim>\<open>_format_condition_message\<close>, appending a line to \<open>message_parts\<close>;
  \<open>render\<close> and \<open>cap\<close> are the parameters of \<open>py_format\<close> and \<open>capitalize\<close>.
\<close>

fun format_conditions ::
  "(pyval \<Rightarrow> string) \<Rightarrow> (string \<Rightarrow> string) \<Rightarrow> WeatherCondition list \<Rightarrow> string list
     \<Rightarrow> string list" where
  "format_conditions render cap [] message_parts = message_parts"
| "format_conditions render cap (condition # rest) message_parts =
     format_conditions render cap rest
       (message_parts @
          [if type condition = ''temperature'' then
             glyph_temperature @ '' '' @ capitalize cap (severity condition) @ '' ''
               @ description condition @ '': ''
               @ py_format render (value condition) @ unit condition
           else if type condition = ''wind'' then
             glyph_wind @ '' '' @ capitalize cap (severity condition) @ '' ''
               @ description condition @ '': ''
               @ py_format render (value condition) @ unit condition
           else if type condition = ''precipitation'' then
             glyph_precipitation @ '' '' @ capitalize cap (severity condition) @ '' ''
               @ description condition @ '': ''
               @ py_format render (value condition) @ unit condition
           else
             glyph_other @ '' '' @ capitalize cap (severity condition) @ '' ''
               @ description condition])"

text \<open>\<^verbatim>\<open>AlertSystem._format_condition_message\<close>.\<close>

definition format_condition_message ::
  "AlertSystem \<Rightarrow> (pyval \<Rightarrow> string) \<Rightarrow> (string \<Rightarrow> string) \<Rightarrow> WeatherCondition list
     \<Rightarrow> string" where
  "format_condition_message self render cap conditions =
     (if conditions = [] then ''No significant weather conditions detected.''
      else
        str_join newline
          (format_conditions render cap conditions
             [glyph_alert @ '' Weather Alert:'' @ newline]))"

text \<open>
  The request \<^verbatim>\<open>send_notification\<close> hands to the connection: the method, the path and
  the four fields of the form. The percent-encoding of the fields is not part of the model.
\<close>

record Request =
  host :: string
  http_method :: string
  path :: string
  token :: string
  user :: string
  message :: string
  title :: string

text \<open>
  What comes back from the \<^verbatim>\<open>try\<close> block: a response with its status, or an exception
  raised by the connection. The strings of the model can all be encoded, so building the
  form does not raise.
\<close>

datatype outcome = Status int | Raised

text \<open>
  The network: the requests made so far, oldest first, and the outcome it has for a request.
\<close>

record Network =
  requests :: "Request list"
  respond :: "Request \<Rightarrow> outcome"

text \<open>
  \<^verbatim>\<open>AlertSystem.send_notification\<close>; \<open>title = None\<close> is a call without a title. The
  lines written to the log are not part of the model.
\<close>

definition send_notification ::
  "AlertSystem \<Rightarrow> (pyval \<Rightarrow> string) \<Rightarrow> (string \<Rightarrow> string) \<Rightarrow> WeatherCondition list
     \<Rightarrow> string option \<Rightarrow> Network \<Rightarrow> bool \<times> Network" where
  "send_notification self render cap conditions title_arg net =
     (let filtered_conditions = filter_conditions self conditions
      in if filtered_conditions = [] then (False, net)
         else
           let msg = format_condition_message self render cap filtered_conditions;
               req = \<lparr>host = ''api.pushover.net:443'', http_method = ''POST'',
                      path = ''/1/messages.json'',
                      token = pushover_app_token self,
                      user = pushover_user_key self,
                      message = msg,
                      title = (case title_arg of
                                 None \<Rightarrow> ''Weather Alert System''
                               | Some t \<Rightarrow> if t = [] then ''Weather Alert System'' else t)\<rparr>;
               net' = net\<lparr>requests := requests net @ [req]\<rparr>
           in case respond net req of
                Raised \<Rightarrow> (False, net')
              | Status st \<Rightarrow> (if st = 200 then (True, net') else (False, net')))"

section \<open>The rules of the specification\<close>

text \<open>
  The rules of the analyser as the specification words them, one function per rule, each
  giving the conditions the rule emits. The theorems below compare them with what
  \<open>analyze_entry\<close> appends.
\<close>

text \<open>
  Temperature: above the extreme high, one condition "Extreme Heat"; else below the
  extreme low, one condition "Extreme Cold"; else none.
\<close>

definition temperature_rule :: "Thresholds \<Rightarrow> pyval \<Rightarrow> WeatherCondition list" where
  "temperature_rule th temp =
     (if py_gt temp (temperature_extreme_high th) = Inr True then
        [\<lparr>type = ''temperature'', severity = ''extreme'', description = ''Extreme Heat'',
          value = temp, unit = degrees_celsius\<rparr>]
      else if py_lt temp (temperature_extreme_low th) = Inr True then
        [\<lparr>type = ''temperature'', severity = ''extreme'', description = ''Extreme Cold'',
          value = temp, unit = degrees_celsius\<rparr>]
      else [])"

text \<open>
  Wind: the speed converted to km/h; above the severe threshold, one condition "High Winds"
  carrying the converted value.
\<close>

definition wind_rule :: "Thresholds \<Rightarrow> pyval \<Rightarrow> WeatherCondition list" where
  "wind_rule th kmh =
     (if py_gt kmh (wind_severe th) = Inr True then
        [\<lparr>type = ''wind'', severity = ''severe'', description = ''High Winds'',
          value = kmh, unit = ''km/h''\<rparr>]
      else [])"

text \<open>
  Precipitation: an entry with a rain sample for the 3-hour window whose volume is above
  the threshold gives one condition "Heavy Rain" carrying the volume.
\<close>

definition rain_sample :: "pyval \<Rightarrow> pyval option" where
  "rain_sample entry =
     (case py_getitem entry ''rain'' of
        Inr rain \<Rightarrow>
          (if py_contains rain ''3h'' = Inr True then
             (case py_getitem rain ''3h'' of Inr v \<Rightarrow> Some v | Inl _ \<Rightarrow> None)
           else None)
      | Inl _ \<Rightarrow> None)"

definition rain_rule :: "Thresholds \<Rightarrow> pyval \<Rightarrow> WeatherCondition list" where
  "rain_rule th entry =
     (case rain_sample entry of
        Some rain_volume \<Rightarrow>
          (if py_gt rain_volume (heavy_rain_3h th) = Inr True then
             [\<lparr>type = ''precipitation'', severity = ''heavy'', description = ''Heavy Rain'',
               value = rain_volume, unit = ''mm''\<rparr>]
           else [])
      | None \<Rightarrow> [])"

text \<open>
  Severe weather tags: a tag whose category, lower-cased, contains one of the keywords as
  a substring gives one condition of type "weather" with the tag's description.
\<close>

definition tag_rule :: "Thresholds \<Rightarrow> (pyval \<Rightarrow> string) \<Rightarrow> pyval \<Rightarrow> WeatherCondition list" where
  "tag_rule th render weather =
     (case py_getitem weather ''main'' of
        Inr (PStr category) \<Rightarrow>
          (if \<exists>keyword \<in> set (severe_conditions th). sublist keyword (str_lower category)
           then
             (case py_getitem weather ''description'' of
                Inr d \<Rightarrow>
                  [\<lparr>type = ''weather'', severity = ''severe'',
                    description = ''Severe Weather: '' @ py_format render d,
                    value = PInt 0, unit = []\<rparr>]
              | Inl _ \<Rightarrow> [])
           else [])
      | _ \<Rightarrow> [])"

text \<open>
  The message of the specification: the header, then one line per condition in the order
  of the input, the severity capitalised by \<open>label\<close>.
\<close>

definition condition_line ::
  "(string \<Rightarrow> string) \<Rightarrow> (pyval \<Rightarrow> string) \<Rightarrow> WeatherCondition \<Rightarrow> string" where
  "condition_line label render c =
     (if type c \<in> {''temperature'', ''wind'', ''precipitation''} then
        (if type c = ''temperature'' then glyph_temperature
         else if type c = ''wind'' then glyph_wind
         else glyph_precipitation)
          @ '' '' @ label (severity c) @ '' '' @ description c @ '': ''
          @ py_format render (value c) @ unit c
      else glyph_other @ '' '' @ label (severity c) @ '' '' @ description c)"

definition message_of ::
  "(string \<Rightarrow> string) \<Rightarrow> (pyval \<Rightarrow> string) \<Rightarrow> WeatherCondition list \<Rightarrow> string" where
  "message_of label render cs =
     glyph_alert @ '' Weather Alert:'' @ newline @ newline
       @ str_join newline (map (condition_line label render) cs)"

text \<open>The label as the specification has it: first letter upper-cased, the rest unchanged.\<close>

fun upper_first :: "string \<Rightarrow> string" where
  "upper_first [] = []"
| "upper_first (c # cs) = upper_char c # cs"

text \<open>
  A well-formed forecast entry: a dictionary with a number under \<open>main.temp\<close> and under
  \<open>wind.speed\<close>, the latter in the range of a float; if it has \<open>rain\<close>, that is a dictionary
  whose \<open>3h\<close>, if any, is a number; if it has \<open>weather\<close>, that is a list of tags, each a
  dictionary with a string under \<open>main\<close> and something under \<open>description\<close>.
\<close>

fun is_number :: "pyval \<Rightarrow> bool" where
  "is_number (PInt i) = True"
| "is_number (PFloat f) = True"
| "is_number _ = False"

fun is_float_range :: "pyval \<Rightarrow> bool" where
  "is_float_range (PInt i) = (\<not> float_is_inf (round_binary64 (of_int i)))"
| "is_float_range (PFloat f) = True"
| "is_float_range _ = False"

definition well_formed_tag :: "pyval \<Rightarrow> bool" where
  "well_formed_tag weather =
     (case weather of
        PDict kvs \<Rightarrow>
          (case map_of kvs ''main'' of
             Some (PStr category) \<Rightarrow> map_of kvs ''description'' \<noteq> None
           | _ \<Rightarrow> False)
      | _ \<Rightarrow> False)"

definition well_formed_entry :: "pyval \<Rightarrow> bool" where
  "well_formed_entry entry =
     (case entry of
        PDict kvs \<Rightarrow>
          (case map_of kvs ''main'' of
             Some (PDict m) \<Rightarrow>
               (case map_of m ''temp'' of Some t \<Rightarrow> is_number t | None \<Rightarrow> False)
           | _ \<Rightarrow> False) \<and>
          (case map_of kvs ''wind'' of
             Some (PDict w) \<Rightarrow>
               (case map_of w ''speed'' of Some s \<Rightarrow> is_float_range s | None \<Rightarrow> False)
           | _ \<Rightarrow> False) \<and>
          (case map_of kvs ''rain'' of
             None \<Rightarrow> True
           | Some (PDict r) \<Rightarrow>
               (case map_of r ''3h'' of None \<Rightarrow> True | Some v \<Rightarrow> is_number v)
           | Some _ \<Rightarrow> False) \<and>
          (case map_of kvs ''weather'' of
             None \<Rightarrow> True
           | Some (PList tags) \<Rightarrow> list_all well_formed_tag tags
           | Some _ \<Rightarrow> False)
      | _ \<Rightarrow> False)"

text \<open>
  The ranking of the specification: info 0, warning 1, severe 2, extreme 3, and 0 for every
  other name. The threshold in force is the one configured, "warning" if none was.
\<close>

definition spec_rank :: "string \<Rightarrow> int" where
  "spec_rank name =
     (if name = ''info'' then 0
      else if name = ''warning'' then 1
      else if name = ''severe'' then 2
      else if name = ''extreme'' then 3
      else 0)"

definition threshold_name :: "string option \<Rightarrow> string" where
  "threshold_name threshold = (case threshold of None \<Rightarrow> ''warning'' | Some t \<Rightarrow> t)"

text \<open>The pairs of type and severity that the analyser gives its conditions.\<close>

definition emitted_kinds :: "(string \<times> string) set" where
  "emitted_kinds =
     {(''temperature'', ''extreme''), (''wind'', ''severe''), (''precipitation'', ''heavy''),
      (''weather'', ''severe'')}"

section \<open>The forecasts of the test suite\<close>

text \<open>
  The three forecasts on which the repository's tests run the analyser: one entry each,
  with extreme heat, with high winds, and with a thunderstorm tag.
\<close>

definition forecast_heat :: pyval where
  "forecast_heat =
     PDict [(''list'',
       PList [PDict [(''main'', PDict [(''temp'', PInt 41)]),
                     (''wind'', PDict [(''speed'', PInt 5)]),
                     (''weather'', PList [])]])]"

definition forecast_wind :: pyval where
  "forecast_wind =
     PDict [(''list'',
       PList [PDict [(''main'', PDict [(''temp'', PInt 25)]),
                     (''wind'', PDict [(''speed'', PInt 25)]),
                     (''weather'', PList [])]])]"

definition forecast_storm :: pyval where
  "forecast_storm =
     PDict [(''list'',
       PList [PDict [(''main'', PDict [(''temp'', PInt 25)]),
                     (''wind'', PDict [(''speed'', PInt 5)]),
                     (''weather'',
                        PList [PDict [(''main'', PStr ''Thunderstorm''),
                                      (''description'', PStr ''Thunderstorm'')]])]])]"

text \<open>A forecast with one entry of 60 mm of rain in three hours, and one entry without its \<open>main\<close>.\<close>

definition forecast_rain :: pyval where
  "forecast_rain =
     PDict [(''list'',
       PList [PDict [(''main'', PDict [(''temp'', PInt 25)]),
                     (''wind'', PDict [(''speed'', PInt 5)]),
                     (''rain'', PDict [(''3h'', PInt 60)]),
                     (''weather'', PList [])]])]"

definition forecast_no_main :: pyval where
  "forecast_no_main =
     PDict [(''list'', PList [PDict [(''wind'', PDict [(''speed'', PInt 5)])]])]"

section \<open>Sequencing and substrings\<close>

lemma bind_Inr [simp]: "bind (Inr x) f = f x"
  by (simp add: bind_def)

lemma bind_Inl [simp]: "bind (Inl e) f = Inl e"
  by (simp add: bind_def)

lemma bind_eq_Inr: "bind m f = Inr y \<longleftrightarrow> (\<exists>x. m = Inr x \<and> f x = Inr y)"
  by (cases m) simp_all

lemma str_contains_sublist: "str_contains s sub \<longleftrightarrow> sublist sub s"
  by (induction s) (auto simp: sublist_Cons_right)

section \<open>Products with the literal 3.6\<close>

lemma floorlog2_eqI: "2 ^ (k - 1) \<le> n \<Longrightarrow> n < 2 ^ k \<Longrightarrow> floorlog 2 n = k"
  by (rule antisym) (auto intro: floorlog_leI floorlog_geI)

lemma floor_rat_numeral: "\<lfloor>numeral a / numeral b :: rat\<rfloor> = numeral a div numeral b"
  using floor_divide_of_int_eq [of "numeral a" "numeral b", where ?'a = rat] by simp

lemma floorlog_3: "floorlog 2 3 = 2"
  by (rule floorlog2_eqI) simp_all

lemma ilog2_3_6: "ilog2 (18 / 5) = 1"
  by (simp add: ilog2_def floorlog_3 floor_rat_numeral)

lemma float_3_6_value: "float_3_6 = Fin (8106479329266893 / 2251799813685248)"
  by (simp add: float_3_6_def round_binary64_def ilog2_3_6 pow2_def round_half_even_def
      floor_rat_numeral Let_def)


lemma floorlog_5: "floorlog 2 5 = 3"
  by (rule floorlog2_eqI) simp_all

lemma floorlog_18: "floorlog 2 18 = 5"
  by (rule floorlog2_eqI) simp_all

lemma floorlog_25: "floorlog 2 25 = 5"
  by (rule floorlog2_eqI) simp_all

lemma floorlog_90: "floorlog 2 90 = 7"
  by (rule floorlog2_eqI) simp_all

lemma int_to_float_25: "int_to_float 25 = Inr (Fin 25)"
  by (simp add: int_to_float_def round_binary64_def ilog2_def floorlog_25 pow2_def
      round_half_even_def Let_def)

lemma int_to_float_5: "int_to_float 5 = Inr (Fin 5)"
  by (simp add: int_to_float_def round_binary64_def ilog2_def floorlog_5 pow2_def
      round_half_even_def Let_def)

lemma float_mul_25: "float_mul (Fin 25) float_3_6 = Fin 90"
  by (simp add: float_3_6_value float_mul_def round_binary64_def ilog2_def floorlog_90 pow2_def
      round_half_even_def floor_rat_numeral Let_def)

lemma float_mul_5: "float_mul (Fin 5) float_3_6 = Fin 18"
  by (simp add: float_3_6_value float_mul_def round_binary64_def ilog2_def floorlog_18 pow2_def
      round_half_even_def floor_rat_numeral Let_def)

lemma py_mul_3_6_25: "py_mul_3_6 (PInt 25) = Inr (PFloat (Fin 90))"
  by (simp add: int_to_float_25 float_mul_25)

lemma py_mul_3_6_5: "py_mul_3_6 (PInt 5) = Inr (PFloat (Fin 18))"
  by (simp add: int_to_float_5 float_mul_5)

lemma float_range_5: "is_float_range (PInt 5)"
  using int_to_float_5 by (simp add: int_to_float_def Let_def split: if_splits)

lemma float_range_25: "is_float_range (PInt 25)"
  using int_to_float_25 by (simp add: int_to_float_def Let_def split: if_splits)

section \<open>What the analyser appends\<close>

lemma any_severe_Inr:
  "any_severe ks w = Inr b \<Longrightarrow> ks \<noteq> [] \<Longrightarrow>
     \<exists>category. py_getitem w ''main'' = Inr (PStr category) \<and>
        b = (\<exists>k \<in> set ks. sublist k (str_lower category))"
proof (induction ks)
  case Nil then show ?case by simp
next
  case (Cons k ks)
  from Cons.prems(1) obtain m lowered where m: "py_getitem w ''main'' = Inr m"
    and l: "py_lower m = Inr lowered"
    and r: "(if str_contains lowered k then Inr True else any_severe ks w) = Inr b"
    by (auto simp: bind_eq_Inr)
  from l obtain category where c: "m = PStr category" "lowered = str_lower category"
    by (cases m) auto
  show ?case
  proof (cases "str_contains lowered k")
    case True
    with r m c show ?thesis by (auto simp: str_contains_sublist)
  next
    case False
    with r have a: "any_severe ks w = Inr b" by simp
    show ?thesis
    proof (cases ks)
      case Nil
      with a False m c show ?thesis by (auto simp: str_contains_sublist)
    next
      case (Cons k' ks')
      with Cons.IH a obtain category' where "py_getitem w ''main'' = Inr (PStr category')"
        "b = (\<exists>k \<in> set ks. sublist k (str_lower category'))" by auto
      with m c False show ?thesis by (auto simp: str_contains_sublist)
    qed
  qed
qed

lemma any_severe_tag_rule:
  assumes "any_severe (severe_conditions th) w = Inr b"
  shows "tag_rule th render w =
           (if b then (case py_getitem w ''description'' of
                         Inr d \<Rightarrow> [\<lparr>type = ''weather'', severity = ''severe'',
                                    description = ''Severe Weather: '' @ py_format render d,
                                    value = PInt 0, unit = []\<rparr>]
                       | Inl _ \<Rightarrow> [])
            else [])"
proof (cases "severe_conditions th = []")
  case True
  with assms show ?thesis
    by (auto simp: tag_rule_def split: sum.splits pyval.splits)
next
  case False
  from any_severe_Inr [OF assms False] show ?thesis
    by (auto simp: tag_rule_def)
qed

lemma analyze_weather_Inr:
  "analyze_weather self render ws acc = Inr cs \<Longrightarrow>
     cs = acc @ concat (map (tag_rule (thresholds self) render) ws)"
proof (induction ws arbitrary: acc)
  case Nil then show ?case by simp
next
  case (Cons w ws)
  from Cons.prems obtain hit where h: "any_severe (severe_conditions (thresholds self)) w = Inr hit"
    and r: "(if hit then
         bind (py_getitem w ''description'') (\<lambda>d.
           analyze_weather self render ws
             (acc @
                [\<lparr>type = ''weather'', severity = ''severe'',
                  description = ''Severe Weather: '' @ py_format render d,
                  value = PInt 0, unit = []\<rparr>]))
       else analyze_weather self render ws acc) = Inr cs"
    by (auto simp: bind_eq_Inr)
  note t = any_severe_tag_rule [OF h, of render]
  show ?case
  proof (cases hit)
    case True
    with r obtain d where d: "py_getitem w ''description'' = Inr d"
      and a: "analyze_weather self render ws
             (acc @
                [\<lparr>type = ''weather'', severity = ''severe'',
                  description = ''Severe Weather: '' @ py_format render d,
                  value = PInt 0, unit = []\<rparr>]) = Inr cs"
      by (auto simp: bind_eq_Inr)
    from Cons.IH [OF a] t True d show ?thesis by simp
  next
    case False
    with r have "analyze_weather self render ws acc = Inr cs" by simp
    from Cons.IH [OF this] t False show ?thesis by simp
  qed
qed


lemma py_contains_dict_getitem:
  "py_contains (PDict kvs) key = Inr b \<Longrightarrow> b = (\<exists>v. py_getitem (PDict kvs) key = Inr v)"
proof -
  have "key \<in> fst ` set kvs \<longleftrightarrow> map_of kvs key \<noteq> None"
    by (simp add: map_of_eq_None_iff)
  moreover assume "py_contains (PDict kvs) key = Inr b"
  ultimately show ?thesis
    by (cases "map_of kvs key") simp_all
qed

lemma analyze_entry_Inr:
  assumes "analyze_entry self render entry acc = Inr cs"
  obtains main temp wind speed kmh tags weathers where
    "py_getitem entry ''main'' = Inr main" and "py_getitem main ''temp'' = Inr temp" and
    "py_getitem entry ''wind'' = Inr wind" and "py_getitem wind ''speed'' = Inr speed" and
    "py_mul_3_6 speed = Inr kmh" and
    "py_get_or_empty entry ''weather'' = Inr tags" and "py_iter tags = Inr weathers" and
    "cs = acc @ temperature_rule (thresholds self) temp @ wind_rule (thresholds self) kmh
            @ rain_rule (thresholds self) entry
            @ concat (map (tag_rule (thresholds self) render) weathers)"
proof -
  let ?th = "thresholds self"
  from assms [unfolded analyze_entry_def]
  obtain main temp hot after_temp wind speed kmh windy after_wind has_rain has_3h
      after_rain tags weathers
    where main: "py_getitem entry ''main'' = Inr main"
      and temp: "py_getitem main ''temp'' = Inr temp"
      and hot: "py_gt temp (temperature_extreme_high ?th) = Inr hot"
      and after_temp:
        "(if hot then
             Inr (acc @
                    [\<lparr>type = ''temperature'', severity = ''extreme'',
                      description = ''Extreme Heat'', value = temp,
                      unit = degrees_celsius\<rparr>])
           else
             bind (py_lt temp (temperature_extreme_low ?th)) (\<lambda>cold.
               Inr (if cold then
                      acc @
                        [\<lparr>type = ''temperature'', severity = ''extreme'',
                          description = ''Extreme Cold'', value = temp,
                          unit = degrees_celsius\<rparr>]
                    else acc))) = Inr after_temp"
      and wind: "py_getitem entry ''wind'' = Inr wind"
      and speed: "py_getitem wind ''speed'' = Inr speed"
      and kmh: "py_mul_3_6 speed = Inr kmh"
      and windy: "py_gt kmh (wind_severe ?th) = Inr windy"
      and after_wind:
        "after_wind = (if windy then
                  after_temp @
                    [\<lparr>type = ''wind'', severity = ''severe'', description = ''High Winds'',
                      value = kmh, unit = ''km/h''\<rparr>]
                else after_temp)"
      and has_rain: "py_contains entry ''rain'' = Inr has_rain"
      and has_3h:
        "(if has_rain then
             bind (py_getitem entry ''rain'') (\<lambda>rain. py_contains rain ''3h'')
           else Inr False) = Inr has_3h"
      and after_rain:
        "(if has_3h then
             bind (py_getitem entry ''rain'') (\<lambda>rain.
             bind (py_getitem rain ''3h'') (\<lambda>rain_volume.
             bind (py_gt rain_volume (heavy_rain_3h ?th)) (\<lambda>heavy.
               Inr (if heavy then
                      after_wind @
                        [\<lparr>type = ''precipitation'', severity = ''heavy'',
                          description = ''Heavy Rain'', value = rain_volume,
                          unit = ''mm''\<rparr>]
                    else after_wind))))
           else Inr after_wind) = Inr after_rain"
      and tags: "py_get_or_empty entry ''weather'' = Inr tags"
      and weathers: "py_iter tags = Inr weathers"
      and rest: "analyze_weather self render weathers after_rain = Inr cs"
    by (auto simp: bind_eq_Inr)
  have 1: "after_temp = acc @ temperature_rule ?th temp"
    using hot after_temp by (cases hot) (auto simp: temperature_rule_def bind_eq_Inr)
  have 2: "after_wind = after_temp @ wind_rule ?th kmh"
    using windy after_wind by (simp add: wind_rule_def)
  have 3: "after_rain = after_wind @ rain_rule ?th entry"
  proof (cases has_3h)
    case True
    with after_rain obtain rain rain_volume heavy
      where "py_getitem entry ''rain'' = Inr rain" "py_getitem rain ''3h'' = Inr rain_volume"
        "py_gt rain_volume (heavy_rain_3h ?th) = Inr heavy"
        "after_rain = (if heavy then
                      after_wind @
                        [\<lparr>type = ''precipitation'', severity = ''heavy'',
                          description = ''Heavy Rain'', value = rain_volume,
                          unit = ''mm''\<rparr>]
                    else after_wind)"
      by (auto simp: bind_eq_Inr)
    moreover from this(1) has_3h True have "py_contains rain ''3h'' = Inr True"
      by (cases has_rain) (auto simp: bind_eq_Inr)
    ultimately show ?thesis
      by (simp add: rain_rule_def rain_sample_def)
  next
    case False
    from main obtain kvs where e: "entry = PDict kvs" by (cases entry) auto
    have "rain_sample entry = None"
    proof (cases has_rain)
      case True
      with has_3h False show ?thesis
        by (auto simp: bind_eq_Inr rain_sample_def)
    next
      case f: False
      from py_contains_dict_getitem [OF has_rain [unfolded e]] f e
      show ?thesis by (auto simp: rain_sample_def split: sum.splits)
    qed
    with after_rain False show ?thesis by (simp add: rain_rule_def)
  qed
  from analyze_weather_Inr [OF rest] 1 2 3
  have "cs = acc @ temperature_rule ?th temp @ wind_rule ?th kmh @ rain_rule ?th entry
            @ concat (map (tag_rule ?th render) weathers)" by simp
  with main temp wind speed kmh tags weathers that show thesis by blast
qed

lemma temperature_rule_types:
  "\<forall>c \<in> set (temperature_rule th temp). type c = ''temperature'' \<and> severity c = ''extreme''"
  by (simp add: temperature_rule_def)

lemma wind_rule_types:
  "\<forall>c \<in> set (wind_rule th kmh). type c = ''wind'' \<and> severity c = ''severe''"
  by (simp add: wind_rule_def)

lemma rain_rule_types:
  "\<forall>c \<in> set (rain_rule th entry). type c = ''precipitation'' \<and> severity c = ''heavy''"
  by (auto simp: rain_rule_def split: option.splits)

lemma tag_rule_cases:
  "tag_rule th render w = [] \<or>
   (\<exists>d. tag_rule th render w =
      [\<lparr>type = ''weather'', severity = ''severe'',
        description = ''Severe Weather: '' @ py_format render d,
        value = PInt 0, unit = []\<rparr>])"
proof (cases "py_getitem w ''main''")
  case (Inl e)
  then show ?thesis by (simp add: tag_rule_def)
next
  case main: (Inr m)
  show ?thesis
  proof (cases "py_getitem w ''description''")
    case (Inl e)
    with main show ?thesis by (cases m) (simp_all add: tag_rule_def)
  next
    case (Inr d)
    with main show ?thesis by (cases m) (auto simp: tag_rule_def)
  qed
qed

lemma tag_rule_types:
  "\<forall>c \<in> set (tag_rule th render w). type c = ''weather'' \<and> severity c = ''severe''"
  using tag_rule_cases [of th render w] by auto

lemmas rule_types = temperature_rule_types wind_rule_types rain_rule_types tag_rule_types

lemma filter_temperature:
  "filter (\<lambda>c. type c = ''temperature'')
     (temperature_rule th temp @ wind_rule th kmh @ rain_rule th entry
        @ concat (map (tag_rule th render) weathers)) = temperature_rule th temp"
proof -
  have "filter (\<lambda>c. type c = ''temperature'') (temperature_rule th temp) = temperature_rule th temp"
    by (rule filter_True) (simp add: rule_types)
  moreover have "filter (\<lambda>c. type c = ''temperature'') (wind_rule th kmh) = []"
    by (rule filter_False) (simp add: rule_types)
  moreover have "filter (\<lambda>c. type c = ''temperature'') (rain_rule th entry) = []"
    by (rule filter_False) (simp add: rule_types)
  moreover have "filter (\<lambda>c. type c = ''temperature'') (concat (map (tag_rule th render) weathers)) = []"
    by (rule filter_False) (auto simp: rule_types)
  ultimately show ?thesis by simp
qed

lemma filter_wind:
  "filter (\<lambda>c. type c = ''wind'')
     (temperature_rule th temp @ wind_rule th kmh @ rain_rule th entry
        @ concat (map (tag_rule th render) weathers)) = wind_rule th kmh"
proof -
  have "filter (\<lambda>c. type c = ''wind'') (temperature_rule th temp) = []"
    by (rule filter_False) (simp add: rule_types)
  moreover have "filter (\<lambda>c. type c = ''wind'') (wind_rule th kmh) = wind_rule th kmh"
    by (rule filter_True) (simp add: rule_types)
  moreover have "filter (\<lambda>c. type c = ''wind'') (rain_rule th entry) = []"
    by (rule filter_False) (simp add: rule_types)
  moreover have "filter (\<lambda>c. type c = ''wind'') (concat (map (tag_rule th render) weathers)) = []"
    by (rule filter_False) (auto simp: rule_types)
  ultimately show ?thesis by simp
qed

lemma filter_weather:
  "filter (\<lambda>c. type c = ''weather'')
     (temperature_rule th temp @ wind_rule th kmh @ rain_rule th entry
        @ concat (map (tag_rule th render) weathers)) = concat (map (tag_rule th render) weathers)"
proof -
  have "filter (\<lambda>c. type c = ''weather'') (temperature_rule th temp) = []"
    by (rule filter_False) (simp add: rule_types)
  moreover have "filter (\<lambda>c. type c = ''weather'') (wind_rule th kmh) = []"
    by (rule filter_False) (simp add: rule_types)
  moreover have "filter (\<lambda>c. type c = ''weather'') (rain_rule th entry) = []"
    by (rule filter_False) (simp add: rule_types)
  moreover have "filter (\<lambda>c. type c = ''weather'') (concat (map (tag_rule th render) weathers))
      = concat (map (tag_rule th render) weathers)"
    by (rule filter_True) (auto simp: rule_types)
  ultimately show ?thesis by simp
qed

section \<open>Well-formed entries\<close>

lemma py_gt_number: "is_number t \<Longrightarrow> \<exists>b. py_gt t x = Inr b"
  by (cases t) simp_all

lemma py_lt_number: "is_number t \<Longrightarrow> \<exists>b. py_lt t x = Inr b"
  by (cases t) simp_all

lemma py_mul_3_6_range: "is_float_range s \<Longrightarrow> \<exists>f. py_mul_3_6 s = Inr (PFloat f)"
  by (cases s) (simp_all add: int_to_float_def)

lemma any_severe_total:
  "py_getitem w ''main'' = Inr (PStr category) \<Longrightarrow> \<exists>b. any_severe ks w = Inr b"
  by (induction ks) auto

lemma well_formed_tagD:
  assumes "well_formed_tag w"
  obtains category d where "py_getitem w ''main'' = Inr (PStr category)"
    and "py_getitem w ''description'' = Inr d"
proof -
  from assms obtain kvs where w: "w = PDict kvs"
    by (cases w) (simp_all add: well_formed_tag_def)
  from assms w obtain m where m: "map_of kvs ''main'' = Some m"
    by (cases "map_of kvs ''main''") (simp_all add: well_formed_tag_def)
  from assms w m obtain category where c: "m = PStr category"
    by (cases m) (simp_all add: well_formed_tag_def)
  from assms w m c obtain d where "map_of kvs ''description'' = Some d"
    by (cases "map_of kvs ''description''") (simp_all add: well_formed_tag_def)
  with w m c that show thesis by simp
qed

lemma analyze_weather_total:
  "list_all well_formed_tag ws \<Longrightarrow> \<exists>cs. analyze_weather self render ws acc = Inr cs"
proof (induction ws arbitrary: acc)
  case Nil
  then show ?case by simp
next
  case (Cons w ws)
  then have "well_formed_tag w" and ws: "list_all well_formed_tag ws" by simp_all
  then obtain category d where m: "py_getitem w ''main'' = Inr (PStr category)"
    and d: "py_getitem w ''description'' = Inr d"
    by (auto elim: well_formed_tagD)
  from any_severe_total [OF m] obtain hit
    where h: "any_severe (severe_conditions (thresholds self)) w = Inr hit" by blast
  show ?case
  proof (cases hit)
    case True
    with h d Cons.IH [OF ws] show ?thesis by simp
  next
    case False
    with h Cons.IH [OF ws] show ?thesis by simp
  qed
qed


lemma well_formed_entryD:
  assumes "well_formed_entry entry"
  obtains kvs m t w s where "entry = PDict kvs"
    and "map_of kvs ''main'' = Some (PDict m)" and "map_of m ''temp'' = Some t"
    and "is_number t"
    and "map_of kvs ''wind'' = Some (PDict w)" and "map_of w ''speed'' = Some s"
    and "is_float_range s"
    and "map_of kvs ''rain'' = None \<or>
         (\<exists>r. map_of kvs ''rain'' = Some (PDict r) \<and>
            (map_of r ''3h'' = None \<or> (\<exists>v. map_of r ''3h'' = Some v \<and> is_number v)))"
    and "map_of kvs ''weather'' = None \<or>
         (\<exists>tags. map_of kvs ''weather'' = Some (PList tags) \<and> list_all well_formed_tag tags)"
proof -
  from assms obtain kvs where e: "entry = PDict kvs"
    by (cases entry) (simp_all add: well_formed_entry_def)
  from assms e have
    1: "(case map_of kvs ''main'' of
             Some (PDict m) \<Rightarrow>
               (case map_of m ''temp'' of Some t \<Rightarrow> is_number t | None \<Rightarrow> False)
           | _ \<Rightarrow> False)" and
    2: "(case map_of kvs ''wind'' of
             Some (PDict w) \<Rightarrow>
               (case map_of w ''speed'' of Some s \<Rightarrow> is_float_range s | None \<Rightarrow> False)
           | _ \<Rightarrow> False)" and
    3: "(case map_of kvs ''rain'' of
             None \<Rightarrow> True
           | Some (PDict r) \<Rightarrow>
               (case map_of r ''3h'' of None \<Rightarrow> True | Some v \<Rightarrow> is_number v)
           | Some _ \<Rightarrow> False)" and
    4: "(case map_of kvs ''weather'' of
             None \<Rightarrow> True
           | Some (PList tags) \<Rightarrow> list_all well_formed_tag tags
           | Some _ \<Rightarrow> False)"
    by (simp_all add: well_formed_entry_def)
  from 1 obtain m t where "map_of kvs ''main'' = Some (PDict m)" "map_of m ''temp'' = Some t"
    "is_number t"
    by (auto split: option.splits pyval.splits)
  moreover from 2 obtain w s where "map_of kvs ''wind'' = Some (PDict w)"
    "map_of w ''speed'' = Some s" "is_float_range s"
    by (auto split: option.splits pyval.splits)
  moreover from 3 have "map_of kvs ''rain'' = None \<or>
         (\<exists>r. map_of kvs ''rain'' = Some (PDict r) \<and>
            (map_of r ''3h'' = None \<or> (\<exists>v. map_of r ''3h'' = Some v \<and> is_number v)))"
    by (auto split: option.splits pyval.splits)
  moreover from 4 have "map_of kvs ''weather'' = None \<or>
         (\<exists>tags. map_of kvs ''weather'' = Some (PList tags) \<and> list_all well_formed_tag tags)"
    by (auto split: option.splits pyval.splits)
  ultimately show thesis using e that by blast
qed


lemma analyze_entry_total:
  assumes "well_formed_entry entry"
  shows "\<exists>cs. analyze_entry self render entry acc = Inr cs"
proof -
  let ?th = "thresholds self"
  from assms obtain kvs m t w s where e: "entry = PDict kvs"
    and m: "map_of kvs ''main'' = Some (PDict m)" and t: "map_of m ''temp'' = Some t"
    and nt: "is_number t"
    and w: "map_of kvs ''wind'' = Some (PDict w)" and s: "map_of w ''speed'' = Some s"
    and rs: "is_float_range s"
    and rain: "map_of kvs ''rain'' = None \<or>
         (\<exists>r. map_of kvs ''rain'' = Some (PDict r) \<and>
            (map_of r ''3h'' = None \<or> (\<exists>v. map_of r ''3h'' = Some v \<and> is_number v)))"
    and tags: "map_of kvs ''weather'' = None \<or>
         (\<exists>tags. map_of kvs ''weather'' = Some (PList tags) \<and> list_all well_formed_tag tags)"
    by (rule well_formed_entryD)
  have main: "py_getitem entry ''main'' = Inr (PDict m)"
    and temp: "py_getitem (PDict m) ''temp'' = Inr t"
    and wind: "py_getitem entry ''wind'' = Inr (PDict w)"
    and speed: "py_getitem (PDict w) ''speed'' = Inr s"
    using e m t w s by simp_all
  from py_gt_number [OF nt] obtain hot
    where hot: "py_gt t (temperature_extreme_high ?th) = Inr hot" by blast
  from py_lt_number [OF nt] obtain cold
    where cold: "py_lt t (temperature_extreme_low ?th) = Inr cold" by blast
  obtain after_temp where after_temp:
    "(if hot then
        Inr (acc @
               [\<lparr>type = ''temperature'', severity = ''extreme'',
                 description = ''Extreme Heat'', value = t,
                 unit = degrees_celsius\<rparr>])
      else
        bind (py_lt t (temperature_extreme_low ?th)) (\<lambda>cold.
          Inr (if cold then
                 acc @
                   [\<lparr>type = ''temperature'', severity = ''extreme'',
                     description = ''Extreme Cold'', value = t,
                     unit = degrees_celsius\<rparr>]
               else acc))) = Inr after_temp"
    by (cases hot) (simp_all add: cold)
  from py_mul_3_6_range [OF rs] obtain f where kmh: "py_mul_3_6 s = Inr (PFloat f)" by blast
  have windy: "py_gt (PFloat f) (wind_severe ?th) = Inr (float_gt_int f (wind_severe ?th))"
    by simp
  obtain has_rain has_3h where has_rain: "py_contains entry ''rain'' = Inr has_rain"
    and has_3h: "(if has_rain then
             bind (py_getitem entry ''rain'') (\<lambda>rain. py_contains rain ''3h'')
           else Inr False) = Inr has_3h"
    and after_rain: "\<And>after_wind. \<exists>after_rain.
        (if has_3h then
             bind (py_getitem entry ''rain'') (\<lambda>rain.
             bind (py_getitem rain ''3h'') (\<lambda>rain_volume.
             bind (py_gt rain_volume (heavy_rain_3h ?th)) (\<lambda>heavy.
               Inr (if heavy then
                      after_wind @
                        [\<lparr>type = ''precipitation'', severity = ''heavy'',
                          description = ''Heavy Rain'', value = rain_volume,
                          unit = ''mm''\<rparr>]
                    else after_wind))))
           else Inr after_wind) = Inr after_rain"
  proof -
    from rain show thesis
    proof (elim disjE exE conjE)
      assume "map_of kvs ''rain'' = None"
      then have "''rain'' \<notin> fst ` set kvs" by (simp add: map_of_eq_None_iff)
      then have a: "py_contains entry ''rain'' = Inr False" using e by simp
      have b: "(if False then
             bind (py_getitem entry ''rain'') (\<lambda>rain. py_contains rain ''3h'')
           else Inr False) = Inr False" by simp
      from a b show thesis by (rule that) simp
    next
      fix r
      assume 2: "map_of kvs ''rain'' = Some (PDict r)" "map_of r ''3h'' = None"
      from 2(1) have "''rain'' \<in> fst ` set kvs"
        using map_of_eq_None_iff [of kvs "''rain''"] by auto
      then have a: "py_contains entry ''rain'' = Inr True" using e by simp
      from 2(2) have "''3h'' \<notin> fst ` set r" by (simp add: map_of_eq_None_iff)
      with 2(1) e have b: "(if True then
             bind (py_getitem entry ''rain'') (\<lambda>rain. py_contains rain ''3h'')
           else Inr False) = Inr False" by simp
      from a b show thesis by (rule that) simp
    next
      fix r v
      assume 3: "map_of kvs ''rain'' = Some (PDict r)" "map_of r ''3h'' = Some v" "is_number v"
      from 3(1) have "''rain'' \<in> fst ` set kvs"
        using map_of_eq_None_iff [of kvs "''rain''"] by auto
      then have a: "py_contains entry ''rain'' = Inr True" using e by simp
      from 3(2) have "''3h'' \<in> fst ` set r"
        using map_of_eq_None_iff [of r "''3h''"] by auto
      with 3(1) e have b: "(if True then
             bind (py_getitem entry ''rain'') (\<lambda>rain. py_contains rain ''3h'')
           else Inr False) = Inr True" by simp
      from py_gt_number [OF 3(3)] obtain heavy
        where "py_gt v (heavy_rain_3h ?th) = Inr heavy" by blast
      with 3(1,2) e have c: "\<exists>after_rain.
        (if True then
             bind (py_getitem entry ''rain'') (\<lambda>rain.
             bind (py_getitem rain ''3h'') (\<lambda>rain_volume.
             bind (py_gt rain_volume (heavy_rain_3h ?th)) (\<lambda>heavy.
               Inr (if heavy then
                      after_wind @
                        [\<lparr>type = ''precipitation'', severity = ''heavy'',
                          description = ''Heavy Rain'', value = rain_volume,
                          unit = ''mm''\<rparr>]
                    else after_wind))))
           else Inr after_wind) = Inr after_rain" for after_wind
        by simp
      from a b c show thesis by (rule that)
    qed
  qed
  obtain weathers where get: "py_get_or_empty entry ''weather'' = Inr (PList weathers)"
    and iter: "py_iter (PList weathers) = Inr weathers"
    and wf: "list_all well_formed_tag weathers"
    using tags e by auto
  let ?after_wind = "if float_gt_int f (wind_severe ?th) then
                  after_temp @
                    [\<lparr>type = ''wind'', severity = ''severe'', description = ''High Winds'',
                      value = PFloat f, unit = ''km/h''\<rparr>]
                else after_temp"
  from after_rain [of ?after_wind] obtain ar where ar:
    "(if has_3h then
             bind (py_getitem entry ''rain'') (\<lambda>rain.
             bind (py_getitem rain ''3h'') (\<lambda>rain_volume.
             bind (py_gt rain_volume (heavy_rain_3h ?th)) (\<lambda>heavy.
               Inr (if heavy then
                      ?after_wind @
                        [\<lparr>type = ''precipitation'', severity = ''heavy'',
                          description = ''Heavy Rain'', value = rain_volume,
                          unit = ''mm''\<rparr>]
                    else ?after_wind))))
           else Inr ?after_wind) = Inr ar" by blast
  from analyze_weather_total [OF wf] obtain cs
    where cs: "analyze_weather self render weathers ar = Inr cs" by blast
  have "analyze_entry self render entry acc = Inr cs"
    unfolding analyze_entry_def
    by (simp only: main temp hot after_temp wind speed kmh windy has_rain has_3h ar get iter
        cs bind_Inr)
  then show ?thesis ..
qed


lemma analyze_entries_total:
  "list_all well_formed_entry es \<Longrightarrow> \<exists>cs. analyze_entries self render es acc = Inr cs"
proof (induction es arbitrary: acc)
  case Nil
  then show ?case by simp
next
  case (Cons e es)
  then have "well_formed_entry e" and es: "list_all well_formed_entry es" by simp_all
  from analyze_entry_total [OF this(1)] obtain cs1
    where "analyze_entry self render e acc = Inr cs1" by blast
  with Cons.IH [OF es, of cs1] show ?case by simp
qed

section \<open>The analyser on the test forecasts\<close>

lemmas analyze_unfold = analyze_forecast_def analyze_entry_def WeatherService_init_def

lemma analyze_forecast_heat:
  "analyze_forecast (WeatherService_init k l) render forecast_heat =
     Inr [\<lparr>type = ''temperature'', severity = ''extreme'', description = ''Extreme Heat'',
           value = PInt 41, unit = degrees_celsius\<rparr>]"
  by (simp add: analyze_unfold forecast_heat_def py_mul_3_6_5 del: py_mul_3_6.simps)

lemma analyze_forecast_wind:
  "analyze_forecast (WeatherService_init k l) render forecast_wind =
     Inr [\<lparr>type = ''wind'', severity = ''severe'', description = ''High Winds'',
           value = PFloat (Fin 90), unit = ''km/h''\<rparr>]"
  by (simp add: analyze_unfold forecast_wind_def py_mul_3_6_25 del: py_mul_3_6.simps)

lemma lower_thunderstorm: "str_lower ''Thunderstorm'' = ''thunderstorm''"
  by (simp add: str_lower_def lower_char_def ascii_upper_def ascii_lower_def)

lemma analyze_forecast_storm:
  "analyze_forecast (WeatherService_init k l) render forecast_storm =
     Inr [\<lparr>type = ''weather'', severity = ''severe'',
           description = ''Severe Weather: Thunderstorm'', value = PInt 0, unit = []\<rparr>]"
  by (simp add: analyze_unfold forecast_storm_def py_mul_3_6_5 lower_thunderstorm py_format_def
      del: py_mul_3_6.simps)

lemma analyze_forecast_rain:
  "analyze_forecast (WeatherService_init k l) render forecast_rain =
     Inr [\<lparr>type = ''precipitation'', severity = ''heavy'', description = ''Heavy Rain'',
           value = PInt 60, unit = ''mm''\<rparr>]"
  by (simp add: analyze_unfold forecast_rain_def py_mul_3_6_5 del: py_mul_3_6.simps)

lemma analyze_forecast_no_main:
  "analyze_forecast self render forecast_no_main = Inl KeyError"
  by (simp add: analyze_forecast_def analyze_entry_def forecast_no_main_def)


section \<open>The rules\<close>








section \<open>The severity filter\<close>

lemma get_level_init:
  "get_level (AlertSystem_init user_key app_token threshold) name = spec_rank name"
  by (simp add: get_level_def AlertSystem_init_def spec_rank_def)

lemma threshold_init:
  "notification_threshold (AlertSystem_init user_key app_token threshold) =
     threshold_name threshold"
  by (simp add: AlertSystem_init_def threshold_name_def)

lemma filter_conditions_filter:
  "filter_conditions self cs =
     filter (\<lambda>c. get_level self (notification_threshold self) \<le> get_level self (severity c)) cs"
  by (induction cs) simp_all

text \<open>
  C2: for every list of conditions and every configured threshold, \<open>filter_conditions\<close>
  keeps exactly the conditions whose severity ranks at least as high as the threshold, a
  name outside the table ranking 0, and keeps them in the order of the input.
\<close>

theorem filter_conditions_by_rank:
  "filter_conditions (AlertSystem_init user_key app_token threshold) cs =
     filter (\<lambda>c. spec_rank (threshold_name threshold) \<le> spec_rank (severity c)) cs \<and>
   subseq (filter_conditions (AlertSystem_init user_key app_token threshold) cs) cs \<and>
   (\<forall>name. name \<notin> {''info'', ''warning'', ''severe'', ''extreme''} \<longrightarrow> spec_rank name = 0)"
  by (simp add: filter_conditions_filter get_level_init threshold_init spec_rank_def)

theorem filter_conditions_by_rank_witness:
  "filter_conditions (AlertSystem_init ''u'' ''t'' None)
     [\<lparr>type = ''temperature'', severity = ''info'', description = ''Mild'',
       value = PInt 25, unit = degrees_celsius\<rparr>,
      \<lparr>type = ''temperature'', severity = ''warning'', description = ''Getting Hot'',
       value = PInt 35, unit = degrees_celsius\<rparr>,
      \<lparr>type = ''precipitation'', severity = ''heavy'', description = ''Heavy Rain'',
       value = PInt 60, unit = ''mm''\<rparr>,
      \<lparr>type = ''wind'', severity = ''severe'', description = ''High Winds'',
       value = PInt 80, unit = ''km/h''\<rparr>]
   = [\<lparr>type = ''temperature'', severity = ''warning'', description = ''Getting Hot'',
       value = PInt 35, unit = degrees_celsius\<rparr>,
      \<lparr>type = ''wind'', severity = ''severe'', description = ''High Winds'',
       value = PInt 80, unit = ''km/h''\<rparr>]
   \<and> spec_rank ''heavy'' = 0"
  using filter_conditions_by_rank [of "''u''" "''t''" None
     "[\<lparr>type = ''temperature'', severity = ''info'', description = ''Mild'',
        value = PInt 25, unit = degrees_celsius\<rparr>,
       \<lparr>type = ''temperature'', severity = ''warning'', description = ''Getting Hot'',
        value = PInt 35, unit = degrees_celsius\<rparr>,
       \<lparr>type = ''precipitation'', severity = ''heavy'', description = ''Heavy Rain'',
        value = PInt 60, unit = ''mm''\<rparr>,
       \<lparr>type = ''wind'', severity = ''severe'', description = ''High Winds'',
        value = PInt 80, unit = ''km/h''\<rparr>]"]
  by (simp add: spec_rank_def threshold_name_def)

section \<open>The message\<close>

text \<open>
  C10: \<open>_format_condition_message\<close> on the empty list of conditions returns the fixed
  sentence "No significant weather conditions detected.".
\<close>

theorem format_condition_message_empty:
  "format_condition_message self render cap [] =
     ''No significant weather conditions detected.''"
  by (simp add: format_condition_message_def)

lemma format_conditions_lines:
  "format_conditions render cap cs parts =
     parts @ map (condition_line (capitalize cap) render) cs"
  by (induction cs arbitrary: parts) (simp_all add: condition_line_def)

lemma str_join_Cons: "ps \<noteq> [] \<Longrightarrow> str_join sep (p # ps) = p @ sep @ str_join sep ps"
  by (cases ps) simp_all

lemma lower_char_other: "x \<notin> set ascii_upper \<Longrightarrow> lower_char x = x"
proof -
  assume "x \<notin> set ascii_upper"
  moreover have "length ascii_upper = length ascii_lower"
    by (simp add: ascii_upper_def ascii_lower_def)
  ultimately have "map_of (zip ascii_upper ascii_lower) x = None"
    by (simp add: map_of_zip_is_None)
  then show ?thesis by (simp add: lower_char_def)
qed

lemma capitalize_ascii:
  "is_ascii s \<Longrightarrow>
     capitalize cap s = (case s of [] \<Rightarrow> [] | c # r \<Rightarrow> upper_char c # map lower_char r)"
  by (cases s) (simp_all add: capitalize_def)

lemma capitalize_lower_rest:
  "is_ascii s \<Longrightarrow> \<forall>x \<in> set (tl s). x \<notin> set ascii_upper \<Longrightarrow>
     capitalize cap s = upper_first s"
  by (cases s) (simp_all add: capitalize_def lower_char_other map_idI)

text \<open>
  C9, as amended: for a non-empty list of conditions the message is the header, an empty
  line, and one line per condition in the order of the input, each with the pictogram of
  its type, the severity capitalised by \<^verbatim>\<open>str.capitalize\<close>, the description and, for the
  types temperature, wind and precipitation, the value and the unit. An ASCII severity is
  capitalised to its first letter upper-cased and its other letters lower-cased; where
  the other letters hold no upper-case letter, as in every severity the analyser gives,
  they are unchanged.
\<close>

theorem format_condition_message_lines:
  "(cs \<noteq> [] \<longrightarrow>
      format_condition_message self render cap cs = message_of (capitalize cap) render cs) \<and>
   (is_ascii s \<longrightarrow>
      capitalize cap s =
        (case s of [] \<Rightarrow> [] | c # r \<Rightarrow> upper_char c # map lower_char r)) \<and>
   (is_ascii s \<and> (\<forall>x \<in> set (tl s). x \<notin> set ascii_upper) \<longrightarrow>
      capitalize cap s = upper_first s)"
proof (intro conjI impI)
  assume "cs \<noteq> []"
  then show "format_condition_message self render cap cs = message_of (capitalize cap) render cs"
    by (simp add: format_condition_message_def format_conditions_lines message_of_def
        str_join_Cons)
next
  assume "is_ascii s"
  then show "capitalize cap s =
      (case s of [] \<Rightarrow> [] | c # r \<Rightarrow> upper_char c # map lower_char r)"
    by (rule capitalize_ascii)
next
  assume "is_ascii s \<and> (\<forall>x \<in> set (tl s). x \<notin> set ascii_upper)"
  then show "capitalize cap s = upper_first s"
    by (simp add: capitalize_lower_rest)
qed

text \<open>
  C9 (the claim: the severity appears with its first letter upper-cased and the rest
  unchanged). A condition of severity "SEVERE" appears in the message as "Severe".
\<close>

theorem format_condition_message_label_counterexample:
  "capitalize (\<lambda>s. s) ''SEVERE'' = ''Severe'' \<and> upper_first ''SEVERE'' = ''SEVERE'' \<and>
   format_condition_message (AlertSystem_init [] [] None) (\<lambda>v. ''80'') (\<lambda>s. s)
     [\<lparr>type = ''wind'', severity = ''SEVERE'', description = ''High Winds'',
       value = PInt 80, unit = ''km/h''\<rparr>] \<noteq>
   message_of upper_first (\<lambda>v. ''80'')
     [\<lparr>type = ''wind'', severity = ''SEVERE'', description = ''High Winds'',
       value = PInt 80, unit = ''km/h''\<rparr>]"
  by (simp add: format_condition_message_def message_of_def condition_line_def
      capitalize_def is_ascii_def
      lower_char_def upper_char_def ascii_upper_def ascii_lower_def)

theorem format_condition_message_lines_witness:
  "format_condition_message (AlertSystem_init ''u'' ''t'' None)
     (\<lambda>v. if v = PInt 35 then ''35'' else ''80'') (\<lambda>s. s)
     [\<lparr>type = ''temperature'', severity = ''warning'', description = ''High Temp'',
       value = PInt 35, unit = degrees_celsius\<rparr>,
      \<lparr>type = ''wind'', severity = ''severe'', description = ''Strong Winds'',
       value = PInt 80, unit = ''km/h''\<rparr>] =
     glyph_alert @ '' Weather Alert:'' @ newline @ newline @
     glyph_temperature @ '' Warning High Temp: 35'' @ degrees_celsius @ newline @
     glyph_wind @ '' Severe Strong Winds: 80km/h'' \<and>
   is_ascii ''warning'' \<and>
   map (capitalize (\<lambda>s. s)) [''info'', ''warning'', ''severe'', ''extreme'', ''heavy''] =
     [''Info'', ''Warning'', ''Severe'', ''Extreme'', ''Heavy''] \<and>
   map upper_first [''info'', ''warning'', ''severe'', ''extreme'', ''heavy''] =
     [''Info'', ''Warning'', ''Severe'', ''Extreme'', ''Heavy'']"
  using format_condition_message_lines [where
      cs = "[\<lparr>type = ''temperature'', severity = ''warning'', description = ''High Temp'',
         value = PInt 35, unit = degrees_celsius\<rparr>,
        \<lparr>type = ''wind'', severity = ''severe'', description = ''Strong Winds'',
         value = PInt 80, unit = ''km/h''\<rparr>]"
      and self = "AlertSystem_init ''u'' ''t'' None"
      and render = "\<lambda>v. if v = PInt 35 then ''35'' else ''80''"
      and cap = "\<lambda>s. s" and s = "''warning''"]
  by (simp add: message_of_def condition_line_def py_format_def capitalize_def is_ascii_def
      lower_char_def upper_char_def ascii_upper_def ascii_lower_def)

section \<open>The severities of the analyser\<close>

lemma analyze_entry_kinds:
  assumes "analyze_entry self render entry acc = Inr cs"
    and "c \<in> set cs"
  shows "c \<in> set acc \<or> (type c, severity c) \<in> emitted_kinds"
proof -
  from assms(1) obtain main temp wind speed kmh tags weathers
    where cs: "cs = acc @ temperature_rule (thresholds self) temp
                   @ wind_rule (thresholds self) kmh @ rain_rule (thresholds self) entry
                   @ concat (map (tag_rule (thresholds self) render) weathers)"
    by (rule analyze_entry_Inr)
  from assms(2) cs consider "c \<in> set acc"
    | "c \<in> set (temperature_rule (thresholds self) temp)"
    | "c \<in> set (wind_rule (thresholds self) kmh)"
    | "c \<in> set (rain_rule (thresholds self) entry)"
    | w where "c \<in> set (tag_rule (thresholds self) render w)"
    by auto
  then show ?thesis
  proof cases
    case 1 then show ?thesis by simp
  next
    case 2 with temperature_rule_types show ?thesis by (auto simp: emitted_kinds_def)
  next
    case 3 with wind_rule_types show ?thesis by (auto simp: emitted_kinds_def)
  next
    case 4 with rain_rule_types show ?thesis by (auto simp: emitted_kinds_def)
  next
    case 5 with tag_rule_types show ?thesis by (auto simp: emitted_kinds_def)
  qed
qed

lemma analyze_entries_kinds:
  "analyze_entries self render es acc = Inr cs \<Longrightarrow> c \<in> set cs \<Longrightarrow>
     c \<in> set acc \<or> (type c, severity c) \<in> emitted_kinds"
proof (induction es arbitrary: acc)
  case Nil
  then show ?case by simp
next
  case (Cons e es)
  from Cons.prems(1) obtain cs1 where e: "analyze_entry self render e acc = Inr cs1"
    and r: "analyze_entries self render es cs1 = Inr cs"
    by (auto simp: bind_eq_Inr)
  from Cons.IH [OF r Cons.prems(2)] analyze_entry_kinds [OF e]
  show ?case by blast
qed

lemma analyze_forecast_kinds:
  assumes "analyze_forecast self render forecast = Inr cs" and "c \<in> set cs"
  shows "(type c, severity c) \<in> emitted_kinds"
proof (cases "py_truthy forecast \<and> py_contains forecast ''list'' = Inr True")
  case True
  with assms(1) obtain es where "analyze_entries self render es [] = Inr cs"
    by (auto simp: analyze_forecast_def bind_eq_Inr)
  from analyze_entries_kinds [OF this assms(2)] show ?thesis by simp
next
  case False
  with assms(1) have "cs = []"
    by (auto simp: analyze_forecast_def bind_eq_Inr split: if_splits)
  with assms(2) show ?thesis by simp
qed

text \<open>
  C1 (the claim: every condition of the analyser has a severity among info, warning,
  severe and extreme). On a forecast with 60 mm of rain in three hours the analyser
  returns a condition of severity "heavy", which is none of the four levels and no key of
  the ranking table of the alert system.
\<close>

theorem heavy_rain_severity_unranked:
  "analyze_forecast (WeatherService_init k l) render forecast_rain =
     Inr [\<lparr>type = ''precipitation'', severity = ''heavy'', description = ''Heavy Rain'',
           value = PInt 60, unit = ''mm''\<rparr>] \<and>
   ''heavy'' \<notin> {''info'', ''warning'', ''severe'', ''extreme''} \<and>
   ''heavy'' \<notin> fst ` set (severity_levels (AlertSystem_init user_key app_token threshold))"
  by (simp add: analyze_forecast_rain AlertSystem_init_def)


section \<open>Dispatch\<close>

lemma send_notification_cases:
  "(filter_conditions self cs = [] \<and>
      send_notification self render cap cs t net = (False, net)) \<or>
   (\<exists>req. filter_conditions self cs \<noteq> [] \<and>
      http_method req = ''POST'' \<and>
      message req = format_condition_message self render cap (filter_conditions self cs) \<and>
      send_notification self render cap cs t net =
        (respond net req = Status 200, net\<lparr>requests := requests net @ [req]\<rparr>))"
proof (cases "filter_conditions self cs = []")
  case True
  then show ?thesis by (simp add: send_notification_def)
next
  case False
  let ?req = "\<lparr>host = ''api.pushover.net:443'', http_method = ''POST'',
                path = ''/1/messages.json'',
                token = pushover_app_token self,
                user = pushover_user_key self,
                message = format_condition_message self render cap (filter_conditions self cs),
                title = (case t of
                           None \<Rightarrow> ''Weather Alert System''
                         | Some t \<Rightarrow> if t = [] then ''Weather Alert System'' else t)\<rparr>"
  have "send_notification self render cap cs t net =
        (respond net ?req = Status 200, net\<lparr>requests := requests net @ [?req]\<rparr>)"
    using False by (cases "respond net ?req") (simp_all add: send_notification_def Let_def)
  with False show ?thesis
    by (intro disjI2 exI [of _ ?req]) simp
qed

text \<open>
  C4: \<open>send_notification\<close> filters first. With nothing left it returns false and the
  network is as before. Otherwise it makes exactly one request, a POST carrying the
  message of the filtered conditions, and returns true exactly when the outcome is a
  response of status 200: any other status and an exception give false, and there is no
  second request.
\<close>

theorem send_notification_contract:
  "(filter_conditions self cs = [] \<longrightarrow>
      send_notification self render cap cs t net = (False, net)) \<and>
   (filter_conditions self cs \<noteq> [] \<longrightarrow>
      (\<exists>req. http_method req = ''POST'' \<and>
         message req = format_condition_message self render cap (filter_conditions self cs) \<and>
         send_notification self render cap cs t net =
           (respond net req = Status 200, net\<lparr>requests := requests net @ [req]\<rparr>)))"
  using send_notification_cases [of self cs render cap t net] by auto


theorem send_notification_contract_witness:
  "filter_conditions (AlertSystem_init ''u'' ''t'' None)
     [\<lparr>type = ''temperature'', severity = ''warning'', description = ''High Temp'',
       value = PInt 35, unit = degrees_celsius\<rparr>] \<noteq> [] \<and>
   fst (send_notification (AlertSystem_init ''u'' ''t'' None) (\<lambda>v. ''35'') (\<lambda>s. s)
     [\<lparr>type = ''temperature'', severity = ''warning'', description = ''High Temp'',
       value = PInt 35, unit = degrees_celsius\<rparr>] None
     \<lparr>requests = [], respond = (\<lambda>r. Status 200)\<rparr>) \<and>
   length (requests (snd (send_notification (AlertSystem_init ''u'' ''t'' None) (\<lambda>v. ''35'') (\<lambda>s. s)
     [\<lparr>type = ''temperature'', severity = ''warning'', description = ''High Temp'',
       value = PInt 35, unit = degrees_celsius\<rparr>] None
     \<lparr>requests = [], respond = (\<lambda>r. Status 200)\<rparr>))) = 1 \<and>
   \<not> fst (send_notification (AlertSystem_init ''u'' ''t'' None) (\<lambda>v. ''35'') (\<lambda>s. s)
     [\<lparr>type = ''temperature'', severity = ''warning'', description = ''High Temp'',
       value = PInt 35, unit = degrees_celsius\<rparr>] None
     \<lparr>requests = [], respond = (\<lambda>r. Status 400)\<rparr>) \<and>
   \<not> fst (send_notification (AlertSystem_init ''u'' ''t'' None) (\<lambda>v. ''35'') (\<lambda>s. s)
     [\<lparr>type = ''temperature'', severity = ''warning'', description = ''High Temp'',
       value = PInt 35, unit = degrees_celsius\<rparr>] None
     \<lparr>requests = [], respond = (\<lambda>r. Raised)\<rparr>) \<and>
   send_notification (AlertSystem_init ''u'' ''t'' None) (\<lambda>v. ''25'') (\<lambda>s. s)
     [\<lparr>type = ''temperature'', severity = ''info'', description = ''Mild'',
       value = PInt 25, unit = degrees_celsius\<rparr>] None
     \<lparr>requests = [], respond = (\<lambda>r. Status 200)\<rparr> =
     (False, \<lparr>requests = [], respond = (\<lambda>r. Status 200)\<rparr>)"
  using send_notification_contract [of "AlertSystem_init ''u'' ''t'' None"
      "[\<lparr>type = ''temperature'', severity = ''warning'', description = ''High Temp'',
         value = PInt 35, unit = degrees_celsius\<rparr>]" "\<lambda>v. ''35''" "\<lambda>s. s" None
      "\<lparr>requests = [], respond = (\<lambda>r. Status 200)\<rparr>"]
  by (simp add: send_notification_def AlertSystem_init_def get_level_def Let_def)

text \<open>
  C3: the precipitation conditions of the analyser all have the severity "heavy", which
  ranks 0; so under a threshold of rank 1 or more (the default "warning" among them)
  \<open>filter_conditions\<close> keeps none of them, and \<open>send_notification\<close> either leaves the
  network as it was or makes one request whose message is formatted from conditions that
  are not precipitation ones.
\<close>

theorem precipitation_never_notified:
  assumes "analyze_forecast ws render forecast = Inr cs"
    and "1 \<le> spec_rank (threshold_name threshold)"
  shows "(\<forall>c \<in> set cs. type c = ''precipitation'' \<longrightarrow> severity c = ''heavy'') \<and>
    spec_rank ''heavy'' = 0 \<and>
    (\<forall>c \<in> set (filter_conditions (AlertSystem_init user_key app_token threshold) cs).
       type c \<noteq> ''precipitation'') \<and>
    (\<forall>t net.
       snd (send_notification (AlertSystem_init user_key app_token threshold) render cap cs t
              net) = net \<or>
       (\<exists>req cs'.
          requests (snd (send_notification (AlertSystem_init user_key app_token threshold)
            render cap cs t net)) = requests net @ [req] \<and>
          message req =
            format_condition_message (AlertSystem_init user_key app_token threshold) render cap
              cs' \<and>
          (\<forall>c \<in> set cs'. type c \<noteq> ''precipitation'')))"
proof -
  let ?alert = "AlertSystem_init user_key app_token threshold"
  have heavy: "severity c = ''heavy''" if "c \<in> set cs" "type c = ''precipitation''" for c
    using analyze_forecast_kinds [OF assms(1) that(1)] that(2)
    by (simp add: emitted_kinds_def)
  have rank: "spec_rank ''heavy'' = 0"
    by (simp add: spec_rank_def)
  have kept: "type c \<noteq> ''precipitation''" if "c \<in> set (filter_conditions ?alert cs)" for c
  proof
    assume p: "type c = ''precipitation''"
    from that have "c \<in> set cs"
      and "spec_rank (threshold_name threshold) \<le> spec_rank (severity c)"
      by (simp_all add: filter_conditions_filter get_level_init threshold_init)
    with heavy [OF this(1) p] rank assms(2) show False by simp
  qed
  have sent: "snd (send_notification ?alert render cap cs t net) = net \<or>
       (\<exists>req cs'.
          requests (snd (send_notification ?alert render cap cs t net)) =
            requests net @ [req] \<and>
          message req = format_condition_message ?alert render cap cs' \<and>
          (\<forall>c \<in> set cs'. type c \<noteq> ''precipitation''))" for t net
    using send_notification_cases [of ?alert cs render cap t net] kept
    by (elim disjE exE conjE) (simp, rule disjI2, force)
  from heavy rank kept sent show ?thesis by blast
qed


theorem precipitation_never_notified_witness:
  "analyze_forecast (WeatherService_init [] []) (\<lambda>v. ''60'') forecast_rain =
     Inr [\<lparr>type = ''precipitation'', severity = ''heavy'', description = ''Heavy Rain'',
           value = PInt 60, unit = ''mm''\<rparr>] \<and>
   1 \<le> spec_rank (threshold_name None) \<and>
   filter_conditions (AlertSystem_init ''u'' ''t'' None)
     [\<lparr>type = ''precipitation'', severity = ''heavy'', description = ''Heavy Rain'',
       value = PInt 60, unit = ''mm''\<rparr>] = [] \<and>
   send_notification (AlertSystem_init ''u'' ''t'' None) (\<lambda>v. ''60'') (\<lambda>s. s)
     [\<lparr>type = ''precipitation'', severity = ''heavy'', description = ''Heavy Rain'',
       value = PInt 60, unit = ''mm''\<rparr>] None
     \<lparr>requests = [], respond = (\<lambda>r. Status 200)\<rparr> =
     (False, \<lparr>requests = [], respond = (\<lambda>r. Status 200)\<rparr>)"
proof -
  have h1: "analyze_forecast (WeatherService_init [] []) (\<lambda>v. ''60'') forecast_rain =
     Inr [\<lparr>type = ''precipitation'', severity = ''heavy'', description = ''Heavy Rain'',
           value = PInt 60, unit = ''mm''\<rparr>]"
    by (rule analyze_forecast_rain)
  have h2: "1 \<le> spec_rank (threshold_name None)"
    by (simp add: spec_rank_def threshold_name_def)
  from precipitation_never_notified [OF h1 h2, of "''u''" "''t''" "\<lambda>s. s"] h1 h2
  show ?thesis
    by (simp add: send_notification_def AlertSystem_init_def get_level_def Let_def)
qed

section \<open>Forecasts the analyser gets through\<close>

lemma analyze_weather_thresholds:
  "thresholds self = thresholds self' \<Longrightarrow>
     analyze_weather self render ws acc = analyze_weather self' render ws acc"
  by (induction ws arbitrary: acc) (simp_all cong: if_cong)

lemma analyze_entry_thresholds:
  assumes "thresholds self = thresholds self'"
  shows "analyze_entry self render entry acc = analyze_entry self' render entry acc"
proof -
  have "analyze_weather self render ws a = analyze_weather self' render ws a" for ws a
    using assms by (rule analyze_weather_thresholds)
  with assms show ?thesis
    by (simp add: analyze_entry_def cong: if_cong)
qed

lemma analyze_entries_thresholds:
  assumes "thresholds self = thresholds self'"
  shows "analyze_entries self render es acc = analyze_entries self' render es acc"
proof (induction es arbitrary: acc)
  case Nil
  show ?case by simp
next
  case (Cons e es)
  have "analyze_entries self render es = analyze_entries self' render es"
    using Cons.IH by blast
  then show ?case
    by (simp add: analyze_entry_thresholds [OF assms])
qed

lemma analyze_forecast_thresholds:
  assumes "thresholds self = thresholds self'"
  shows "analyze_forecast self render forecast = analyze_forecast self' render forecast"
proof -
  have "analyze_entries self render es [] = analyze_entries self' render es []" for es
    using assms by (rule analyze_entries_thresholds)
  then show ?thesis
    by (simp add: analyze_forecast_def cong: if_cong)
qed




end
